theory Spec2Isabelle
  imports Complex_Main "HOL-Library.Multiset" "HOL-Library.Char_ord" "HOL-Library.List_Lexorder"
begin

section \<open>Python values\<close>

text \<open>
  The pipeline moves JSON documents around as Python objects. A value is one of the objects
  \<^verbatim>\<open>json.loads\<close> can return. A dictionary is kept as the list of its items in
  insertion order (Python dictionaries are ordered, and their keys are distinct); keys are
  strings, as in JSON. A float is a binary64 value, kept exactly (see the section on
  numbers).
\<close>

datatype pyfloat =
    Fin int int   \<comment> \<open>\<open>Fin m k\<close> is the finite float \<open>m * 2^k\<close>; \<open>Fin 0 0\<close> is \<open>0.0\<close>\<close>
  | NegZero       \<comment> \<open>\<open>-0.0\<close>\<close>
  | PosInf | NegInf | NaN

datatype pyval =
    PyNone
  | PyBool bool
  | PyInt int
  | PyFloat pyfloat
  | PyStr string
  | PyList "pyval list"
  | PyDict "(string \<times> pyval) list"

text \<open>The exceptions the modelled code can meet.\<close>

datatype py_exception =
    ValueError | TypeError | AttributeError | KeyError | OverflowError
  | ApiError pyval   \<comment> \<open>\<^verbatim>\<open>Exception(f"API Error (400): {v}")\<close>\<close>

section \<open>Numbers and their text\<close>

text \<open>
  Quantities reach the pipeline as JSON numbers or strings and pass through
  \<^verbatim>\<open>Decimal(str(q))\<close>, \<^verbatim>\<open>float(...)\<close> and \<^verbatim>\<open>f"{x:.9f}"\<close>. All of it is exact arithmetic on
  integers: a decimal is a coefficient and a power of ten, a float is a mantissa and a
  power of two, and the conversion between them is rounding to the nearest binary64
  value, ties to even.
\<close>

text \<open>Integer powers of two and ten with a possibly negative exponent appear as the
  numerator (for \<open>k \<ge> 0\<close>) or the denominator (for \<open>k < 0\<close>) of a fraction.\<close>

definition pos_part :: "int \<Rightarrow> nat" where
  "pos_part k = nat (max k 0)"

definition neg_part :: "int \<Rightarrow> nat" where
  "neg_part k = nat (max (- k) 0)"

text \<open>\<open>n / d\<close> rounded to an integer, ties to even and ties up, for \<open>n \<ge> 0\<close>, \<open>d > 0\<close>.\<close>

definition round_half_even :: "int \<Rightarrow> int \<Rightarrow> int" where
  "round_half_even n d =
     (if 2 * (n mod d) < d then n div d
      else if d < 2 * (n mod d) then n div d + 1
      else if even (n div d) then n div d else n div d + 1)"

definition round_half_up :: "int \<Rightarrow> int \<Rightarrow> int" where
  "round_half_up n d = (if 2 * (n mod d) < d then n div d else n div d + 1)"

text \<open>The number of binary, and of decimal, digits of a positive integer.\<close>

function bit_length :: "int \<Rightarrow> int" where
  "bit_length n = (if n \<le> 0 then 0 else 1 + bit_length (n div 2))"
  by pat_completeness auto
termination
  by (relation "measure nat") auto

function dec_length :: "int \<Rightarrow> int" where
  "dec_length n = (if n \<le> 0 then 0 else 1 + dec_length (n div 10))"
  by pat_completeness auto
termination
  by (relation "measure nat") auto

declare bit_length.simps [simp del] dec_length.simps [simp del]

text \<open>\<open>\<lfloor>log\<^sub>2 (p / q)\<rfloor>\<close> and \<open>\<lfloor>log\<^sub>1\<^sub>0 (p / q)\<rfloor>\<close> for positive integers: the difference of the
  lengths, or one less.\<close>

definition floor_log_from :: "int \<Rightarrow> int \<Rightarrow> int \<Rightarrow> int \<Rightarrow> int" where
  "floor_log_from b p q d = (if q * b ^ pos_part d \<le> p * b ^ neg_part d then d else d - 1)"

definition floor_log2 :: "int \<Rightarrow> int \<Rightarrow> int" where
  "floor_log2 p q = floor_log_from 2 p q (bit_length p - bit_length q)"

definition floor_log10 :: "int \<Rightarrow> int \<Rightarrow> int" where
  "floor_log10 p q = floor_log_from 10 p q (dec_length p - dec_length q)"

text \<open>
  A finite float \<open>Fin m k\<close> is \<open>m * 2^k\<close>; it is kept with \<open>m\<close> odd (and \<open>k = 0\<close> for
  zero), so that equal floats are equal terms.
\<close>

function canonical :: "int \<Rightarrow> int \<Rightarrow> pyfloat" where
  "canonical m k = (if m = 0 then Fin 0 0 else if even m then canonical (m div 2) (k + 1) else Fin m k)"
  by pat_completeness auto
termination
  by (relation "measure (\<lambda>(m, k). nat \<bar>m\<bar>)") auto

declare canonical.simps [simp del]

text \<open>
  The binary64 value nearest to \<open>\<plusminus> p / q\<close> for integers \<open>p \<ge> 0\<close>, \<open>q > 0\<close> (ties to
  even): 53 bits of mantissa, exponents from -1022 (below, the spacing stays \<open>2^-1074\<close>),
  and infinity from \<open>2^1024\<close> on.
\<close>

definition double_of_mantissa :: "bool \<Rightarrow> int \<Rightarrow> int \<Rightarrow> pyfloat" where
  "double_of_mantissa neg n k =
     (if 0 \<le> k \<and> 2 ^ 1024 \<le> n * 2 ^ pos_part k then (if neg then NegInf else PosInf)
      else if n = 0 then (if neg then NegZero else Fin 0 0)
      else canonical (if neg then - n else n) k)"

definition round_at_exponent :: "bool \<Rightarrow> int \<Rightarrow> int \<Rightarrow> int \<Rightarrow> pyfloat" where
  "round_at_exponent neg p q k =
     double_of_mantissa neg (round_half_even (p * 2 ^ neg_part k) (q * 2 ^ pos_part k)) k"

definition round_to_double :: "bool \<Rightarrow> int \<Rightarrow> int \<Rightarrow> pyfloat" where
  "round_to_double neg p q =
     (if p = 0 then (if neg then NegZero else Fin 0 0)
      else round_at_exponent neg p q (max (floor_log2 p q) (- 1022) - 52))"

text \<open>\<^verbatim>\<open>str\<close> of a non-negative integer, and of an integer.\<close>

function digits :: "int \<Rightarrow> string" where
  "digits n = (if n < 10 then [''0123456789'' ! nat n]
               else digits (n div 10) @ [''0123456789'' ! nat (n mod 10)])"
  by pat_completeness auto
termination
  by (relation "measure nat") auto

declare digits.simps [simp del]

definition str_int :: "int \<Rightarrow> string" where
  "str_int i = (if i < 0 then ''-'' @ digits (- i) else digits i)"

definition is_digit :: "char \<Rightarrow> bool" where
  "is_digit c = (c \<in> set ''0123456789'')"

definition digit_val :: "char \<Rightarrow> int" where
  "digit_val c = of_char c - 48"

definition int_of_digits :: "string \<Rightarrow> int" where
  "int_of_digits ds = foldl (\<lambda>a c. 10 * a + digit_val c) 0 ds"

text \<open>\<^verbatim>\<open>str.strip()\<close>, \<^verbatim>\<open>str.rstrip(c)\<close> for one character, and the lower case of an
  ASCII letter; characters are the code points below 256.\<close>

definition is_space :: "char \<Rightarrow> bool" where
  "is_space c = (of_char c \<in> {9, 10, 11, 12, 13, 28, 29, 30, 31, 32, 133, 160 :: nat})"

definition strip :: "string \<Rightarrow> string" where
  "strip s = rev (dropWhile is_space (rev (dropWhile is_space s)))"

definition rstrip :: "char \<Rightarrow> string \<Rightarrow> string" where
  "rstrip c s = rev (dropWhile (\<lambda>x. x = c) (rev s))"

definition to_lower :: "char \<Rightarrow> char" where
  "to_lower c =
     (case map_of (zip ''ABCDEFGHIJKLMNOPQRSTUVWXYZ'' ''abcdefghijklmnopqrstuvwxyz'') c of
        None \<Rightarrow> c
      | Some l \<Rightarrow> l)"

text \<open>
  A \<^verbatim>\<open>Decimal\<close>: sign, coefficient and exponent of a finite number (the value is
  coefficient times ten to the exponent), an infinity, a quiet or a signaling NaN.
\<close>

datatype decimal = DFin bool int int | DInf bool | DNaN | DSNaN

text \<open>
  \<^verbatim>\<open>Decimal(s)\<close> for a string: surrounding whitespace and all underscores are dropped; then
  a sign, and either digits with at most one point and an optional exponent, or one of
  \<^verbatim>\<open>Inf\<close>, \<^verbatim>\<open>Infinity\<close>, \<^verbatim>\<open>NaN\<close>, \<^verbatim>\<open>sNaN\<close> (any case, the NaNs with optional digits).
  \<open>None\<close> is \<^verbatim>\<open>decimal.InvalidOperation\<close>. (Digits other than ASCII's, which \<^verbatim>\<open>Decimal\<close>
  also reads, are not modelled.)
\<close>

definition split_sign :: "string \<Rightarrow> bool \<times> string" where
  "split_sign t =
     (case t of
        c # u \<Rightarrow> if c = CHR ''-'' then (True, u) else if c = CHR ''+'' then (False, u) else (False, t)
      | [] \<Rightarrow> (False, t))"

definition parse_exponent :: "string \<Rightarrow> int option" where
  "parse_exponent r =
     (case r of
        [] \<Rightarrow> Some 0
      | c # t \<Rightarrow>
          if c = CHR ''e'' \<or> c = CHR ''E'' then
            (let (neg, ds) = split_sign t
             in if ds \<noteq> [] \<and> list_all is_digit ds
                then Some (if neg then - int_of_digits ds else int_of_digits ds)
                else None)
          else None)"

definition parse_number :: "bool \<Rightarrow> string \<Rightarrow> decimal option" where
  "parse_number neg m =
     (let ip = takeWhile is_digit m; r1 = dropWhile is_digit m;
          (fp, r2) = (case r1 of
                        c # t \<Rightarrow> if c = CHR ''.'' then (takeWhile is_digit t, dropWhile is_digit t)
                                 else ([], r1)
                      | [] \<Rightarrow> ([], r1))
      in if ip = [] \<and> fp = [] then None
         else (case parse_exponent r2 of
                 None \<Rightarrow> None
               | Some e \<Rightarrow> Some (DFin neg (int_of_digits (ip @ fp)) (e - int (length fp)))))"

definition parse_decimal :: "string \<Rightarrow> decimal option" where
  "parse_decimal s =
     (let (neg, body) = split_sign (filter (\<lambda>c. c \<noteq> CHR ''_'') (strip s));
          low = map to_lower body
      in if low = ''inf'' \<or> low = ''infinity'' then Some (DInf neg)
         else if take 3 low = ''nan'' \<and> list_all is_digit (drop 3 low) then Some DNaN
         else if take 4 low = ''snan'' \<and> list_all is_digit (drop 4 low) then Some DSNaN
         else parse_number neg body)"

text \<open>\<^verbatim>\<open>float(d)\<close> for a \<^verbatim>\<open>Decimal\<close>; a signaling NaN raises \<^verbatim>\<open>ValueError\<close>.\<close>

fun float_of_decimal :: "decimal \<Rightarrow> py_exception + pyfloat" where
  "float_of_decimal (DFin neg c e) = Inr (round_to_double neg (c * 10 ^ pos_part e) (10 ^ neg_part e))"
| "float_of_decimal (DInf neg) = Inr (if neg then NegInf else PosInf)"
| "float_of_decimal DNaN = Inr NaN"
| "float_of_decimal DSNaN = Inl ValueError"

text \<open>
  \<^verbatim>\<open>f"{x:.9f}"\<close>: the exact value of the float rounded to nine decimals (ties to even),
  written with all nine.
\<close>

definition zero_pad :: "nat \<Rightarrow> string \<Rightarrow> string" where
  "zero_pad w ds = replicate (w - length ds) CHR ''0'' @ ds"

definition fixed9 :: "int \<Rightarrow> string" where
  "fixed9 n = digits (n div 10 ^ 9) @ ''.'' @ zero_pad 9 (digits (n mod 10 ^ 9))"

fun format_9f :: "pyfloat \<Rightarrow> string" where
  "format_9f NaN = ''nan''"
| "format_9f PosInf = ''inf''"
| "format_9f NegInf = ''-inf''"
| "format_9f NegZero = ''-0.000000000''"
| "format_9f (Fin m k) =
     (if m < 0 then ''-'' else [])
     @ fixed9 (round_half_even (\<bar>m\<bar> * 10 ^ 9 * 2 ^ pos_part k) (2 ^ neg_part k))"

text \<open>
  \<^verbatim>\<open>repr\<close> of a float: the shortest decimal that converts back to the same float, and the
  nearest to it among those. For \<open>n\<close> significant digits the decimals next below and next
  above the value are tried; 17 digits always suffice.
\<close>

definition rounds_to :: "int \<Rightarrow> int \<Rightarrow> int \<Rightarrow> int \<Rightarrow> bool" where
  "rounds_to m k c e = (round_to_double False (c * 10 ^ pos_part e) (10 ^ neg_part e) = Fin m k)"

text \<open>The scaled value is \<open>sn / sd\<close>, and \<open>lo\<close> its integer part.\<close>

definition choose_candidate ::
  "int \<Rightarrow> int \<Rightarrow> int \<Rightarrow> int \<Rightarrow> int \<Rightarrow> int \<Rightarrow> (int \<times> int) option" where
  "choose_candidate m k e sn sd lo =
     (if rounds_to m k lo e \<and> rounds_to m k (lo + 1) e then
        (if sn - lo * sd < (lo + 1) * sd - sn then Some (lo, e)
         else if (lo + 1) * sd - sn < sn - lo * sd then Some (lo + 1, e)
         else if even lo then Some (lo, e) else Some (lo + 1, e))
      else if rounds_to m k lo e then Some (lo, e)
      else if rounds_to m k (lo + 1) e then Some (lo + 1, e)
      else None)"

definition candidate_scaled :: "int \<Rightarrow> int \<Rightarrow> int \<Rightarrow> int \<Rightarrow> int \<Rightarrow> (int \<times> int) option" where
  "candidate_scaled m k e sn sd = choose_candidate m k e sn sd (sn div sd)"

definition candidate_at :: "int \<Rightarrow> int \<Rightarrow> int \<Rightarrow> (int \<times> int) option" where
  "candidate_at m k e =
     candidate_scaled m k e (m * 2 ^ pos_part k * 10 ^ neg_part e) (2 ^ neg_part k * 10 ^ pos_part e)"

definition candidate :: "int \<Rightarrow> int \<Rightarrow> int \<Rightarrow> (int \<times> int) option" where
  "candidate m k n = candidate_at m k (floor_log10 (m * 2 ^ pos_part k) (2 ^ neg_part k) - n + 1)"

definition seventeen_digits :: "int \<Rightarrow> int \<Rightarrow> int \<Rightarrow> int \<times> int" where
  "seventeen_digits m k e =
     (round_half_even (m * 2 ^ pos_part k * 10 ^ neg_part e) (2 ^ neg_part k * 10 ^ pos_part e), e)"

fun shortest_from :: "int \<Rightarrow> int \<Rightarrow> int \<Rightarrow> nat \<Rightarrow> int \<times> int"
  and or_longer :: "int \<Rightarrow> int \<Rightarrow> int \<Rightarrow> nat \<Rightarrow> (int \<times> int) option \<Rightarrow> int \<times> int" where
  "shortest_from m k n 0 =
     seventeen_digits m k (floor_log10 (m * 2 ^ pos_part k) (2 ^ neg_part k) - 16)"
| "shortest_from m k n (Suc fuel) = or_longer m k n fuel (candidate m k n)"
| "or_longer m k n fuel (Some c) = c"
| "or_longer m k n fuel None = shortest_from m k (n + 1) fuel"

text \<open>The digits without trailing zeros, and the position of the decimal point to the
  right of the first digit's left edge: the value is \<open>0.D * 10^decpt\<close>.\<close>

definition digits_and_point :: "string \<Rightarrow> int \<Rightarrow> string \<times> int" where
  "digits_and_point ds e = (rstrip CHR ''0'' ds, int (length ds) + e)"

fun digits_of_candidate :: "int \<times> int \<Rightarrow> string \<times> int" where
  "digits_of_candidate (c, e) = digits_and_point (digits c) e"

definition shortest_digits :: "int \<Rightarrow> int \<Rightarrow> string \<times> int" where
  "shortest_digits m k =
     digits_of_candidate
       (shortest_from m k 1 (Suc (Suc (Suc (Suc (Suc (Suc (Suc (Suc (Suc (Suc (Suc (Suc
             (Suc (Suc (Suc (Suc 0)))))))))))))))))"

definition exponent_text :: "int \<Rightarrow> string" where
  "exponent_text x =
     (if x < 0 then ''-'' else ''+'') @ zero_pad 2 (digits \<bar>x\<bar>)"

fun format_repr :: "string \<times> int \<Rightarrow> string" where
  "format_repr (D, decpt) =
     (if decpt \<le> - 4 \<or> 16 < decpt then
        take 1 D @ (if length D > 1 then ''.'' @ drop 1 D else [])
        @ ''e'' @ exponent_text (decpt - 1)
      else if decpt \<le> 0 then ''0.'' @ replicate (nat (- decpt)) CHR ''0'' @ D
      else if int (length D) \<le> decpt then D @ replicate (nat decpt - length D) CHR ''0'' @ ''.0''
      else take (nat decpt) D @ ''.'' @ drop (nat decpt) D)"

fun float_repr :: "pyfloat \<Rightarrow> string" where
  "float_repr NaN = ''nan''"
| "float_repr PosInf = ''inf''"
| "float_repr NegInf = ''-inf''"
| "float_repr NegZero = ''-0.0''"
| "float_repr (Fin m k) =
     (if m = 0 then ''0.0''
      else (if m < 0 then ''-'' else []) @ format_repr (shortest_digits \<bar>m\<bar> k))"

text \<open>The float a number literal denotes, for writing floats down.\<close>

fun literal_value :: "decimal option \<Rightarrow> pyfloat" where
  "literal_value (Some (DFin neg c e)) = round_to_double neg (c * 10 ^ pos_part e) (10 ^ neg_part e)"
| "literal_value (Some (DInf neg)) = (if neg then NegInf else PosInf)"
| "literal_value _ = NaN"

definition float_literal :: "string \<Rightarrow> pyfloat" where
  "float_literal s = literal_value (parse_decimal s)"

text \<open>
  \<^verbatim>\<open>repr\<close> of a string: single quotes unless the string has a single quote and no
  double quote; the backslash, the quote, tab, newline and return escaped, and every other
  character that is not printable written \<^verbatim>\<open>\xNN\<close>.
\<close>

definition hex2 :: "nat \<Rightarrow> string" where
  "hex2 n = [''0123456789abcdef'' ! (n div 16), ''0123456789abcdef'' ! (n mod 16)]"

definition repr_char :: "char \<Rightarrow> char \<Rightarrow> string" where
  "repr_char quote c =
     (let n = (of_char c :: nat) in
      if c = CHR 0x5C then [CHR 0x5C, CHR 0x5C]
      else if c = quote then [CHR 0x5C, c]
      else if n = 9 then [CHR 0x5C, CHR ''t'']
      else if n = 10 then [CHR 0x5C, CHR ''n'']
      else if n = 13 then [CHR 0x5C, CHR ''r'']
      else if n < 32 \<or> (127 \<le> n \<and> n \<le> 160) \<or> n = 173 then [CHR 0x5C, CHR ''x''] @ hex2 n
      else [c])"

definition repr_str :: "string \<Rightarrow> string" where
  "repr_str s =
     (let quote = (if CHR 0x27 \<in> set s \<and> CHR 0x22 \<notin> set s then CHR 0x22 else CHR 0x27)
      in [quote] @ concat (map (repr_char quote) s) @ [quote])"

text \<open>\<^verbatim>\<open>", ".join(xs)\<close>, and \<^verbatim>\<open>repr\<close> and \<^verbatim>\<open>str\<close> of a value.\<close>

fun join :: "string \<Rightarrow> string list \<Rightarrow> string" where
  "join sep [] = []"
| "join sep [x] = x"
| "join sep (x # y # ys) = x @ sep @ join sep (y # ys)"

fun py_repr :: "pyval \<Rightarrow> string" where
  "py_repr PyNone = ''None''"
| "py_repr (PyBool b) = (if b then ''True'' else ''False'')"
| "py_repr (PyInt i) = str_int i"
| "py_repr (PyFloat x) = float_repr x"
| "py_repr (PyStr s) = repr_str s"
| "py_repr (PyList xs) = ''['' @ join '', '' (map py_repr xs) @ '']''"
| "py_repr (PyDict items) =
     ''{'' @ join '', '' (map (\<lambda>kv. repr_str (fst kv) @ '': '' @ py_repr (snd kv)) items) @ ''}''"

definition py_str :: "pyval \<Rightarrow> string" where
  "py_str v = (case v of PyStr s \<Rightarrow> s | _ \<Rightarrow> py_repr v)"

section \<open>Quantities and the transaction identity\<close>

text \<open>
  \<^verbatim>\<open>normalize_quantity_for_transaction_id\<close> (\<^verbatim>\<open>utility.py\<close>, lines 749-773):
  \<^verbatim>\<open>
  try:
      decimal_value = Decimal(str(quantity_value))
      normalized = f"{float(decimal_value):.9f}".rstrip('0').rstrip('.')
      return normalized
  except (ValueError, TypeError, Exception) as e:
      return str(quantity_value)
  \<close>
\<close>

definition normalize_quantity_for_transaction_id :: "pyval \<Rightarrow> string" where
  "normalize_quantity_for_transaction_id quantity_value =
     (case parse_decimal (py_str quantity_value) of
        None \<Rightarrow> py_str quantity_value
      | Some decimal_value \<Rightarrow>
          (case float_of_decimal decimal_value of
             Inl err \<Rightarrow> py_str quantity_value
           | Inr x \<Rightarrow> rstrip CHR ''.'' (rstrip CHR ''0'' (format_9f x))))"

text \<open>
  The identity, as both dispatch paths build it
  (\<^verbatim>\<open>dag_bakery_system_to_jde.py\<close> line 190, \<^verbatim>\<open>jde_helper.py\<close> line 1094):
  \<^verbatim>\<open>f"{ingredient_name}_{lot_number}_{vessel_code}_{normalized_quantity}"\<close>.
\<close>

definition derive_unique_transaction_id :: "pyval \<Rightarrow> pyval \<Rightarrow> pyval \<Rightarrow> pyval \<Rightarrow> string" where
  "derive_unique_transaction_id name lot_number vessel quantity =
     py_str name @ ''_'' @ py_str lot_number @ ''_'' @ py_str vessel @ ''_''
       @ normalize_quantity_for_transaction_id quantity"

section \<open>The dispatch ledger\<close>

text \<open>
  Table \<^verbatim>\<open>ingredient_submitted_status\<close>, with the columns the dispatch paths write
  (\<^verbatim>\<open>dag_bakery_system_to_jde.py\<close>, lines 39-59):
  \<^verbatim>\<open>UNIQUE (unique_transaction_id)\<close> is the constraint the upserts rely on.
  A column holds the Python value bound to it; \<open>PyNone\<close> is SQL \<^verbatim>\<open>NULL\<close>, which is
  also what a column left out of the \<^verbatim>\<open>INSERT\<close> gets.
\<close>

record ledger_row =
  action_id :: pyval
  ingredient_id :: pyval
  lot_id :: pyval
  vessel_id :: pyval
  vessel_code :: pyval
  ingredient_name :: pyval
  addition_unit :: pyval
  status_text :: string
  status :: string
  unique_transaction_id :: string

type_synonym ledger = "ledger_row list"


text \<open>
  \<^verbatim>\<open>SELECT status FROM ingredient_submitted_status WHERE unique_transaction_id = %s\<close>
  followed by \<^verbatim>\<open>fetchone()\<close>: the status of the first matching row, if any.
\<close>

definition select_status :: "ledger \<Rightarrow> string \<Rightarrow> string option" where
  "select_status L uid =
     map_option status (find (\<lambda>x. unique_transaction_id x = uid) L)"

text \<open>
  \<^verbatim>\<open>
  INSERT INTO ingredient_submitted_status (...) VALUES (...)
  ON CONFLICT (unique_transaction_id) DO UPDATE
  SET status_text = EXCLUDED.status_text, status = '...';
  \<close>
  With no row of that \<^verbatim>\<open>unique_transaction_id\<close> the proposed row \<open>r\<close> is inserted; with
  one, only its \<^verbatim>\<open>status_text\<close> and \<^verbatim>\<open>status\<close> are set, from the proposed row.
\<close>

definition insert_on_conflict_update :: "ledger_row \<Rightarrow> ledger \<Rightarrow> ledger" where
  "insert_on_conflict_update r L =
     (if \<exists>x \<in> set L. unique_transaction_id x = unique_transaction_id r
      then map (\<lambda>x. if unique_transaction_id x = unique_transaction_id r
                      then x\<lparr>status_text := status_text r, status := status r\<rparr>
                      else x) L
      else L @ [r])"

text \<open>The rows of one transaction identity.\<close>

definition rows_of :: "ledger \<Rightarrow> string \<Rightarrow> ledger_row list" where
  "rows_of L uid = filter (\<lambda>x. unique_transaction_id x = uid) L"

section \<open>The retrying HTTP client\<close>

text \<open>
  \<^verbatim>\<open>retry_request\<close> (\<^verbatim>\<open>utility.py\<close>, lines 337-425). A response is what the code reads of
  it: the status code, the body text, and the body parsed as JSON (\<open>None\<close> when
  \<^verbatim>\<open>response.json()\<close> or \<^verbatim>\<open>json.loads(response.text)\<close> raises \<^verbatim>\<open>JSONDecodeError\<close>).
\<close>

record http_response =
  status_code :: nat
  resp_text :: string
  resp_json :: "pyval option"

datatype http_outcome =
    Response http_response
  | TransportFailure   \<comment> \<open>\<^verbatim>\<open>requests.exceptions.RequestException\<close>: timeout, connection error\<close>

text \<open>
  The network and the server, as the client sees them: the outcome of the \<open>n\<close>-th request
  issued, counted from 0. The client re-issues the same request, so the outcome depends on
  the attempt only.
\<close>

type_synonym transport = "nat \<Rightarrow> http_outcome"

datatype log_entry =
    EmptyResponse             \<comment> \<open>warning \<^verbatim>\<open>[EMPTY RESPONSE] Received empty response from {url}\<close>\<close>
  | JsonError string          \<comment> \<open>error \<^verbatim>\<open>[JSON ERROR] Failed to parse response as JSON: {response.text}\<close>\<close>
  | RateLimitRetrying pyval   \<comment> \<open>warning \<^verbatim>\<open>[RATE LIMIT] Retrying in {wait_seconds} seconds.\<close>\<close>
  | RateLimitNoWait           \<comment> \<open>warning \<^verbatim>\<open>[RATE LIMIT] No wait time specified, defaulting ...\<close>\<close>
  | RateLimitParseError       \<comment> \<open>error \<^verbatim>\<open>Error parsing rate limit response: {e}\<close>, then the warning\<close>
  | Failed nat string         \<comment> \<open>error \<^verbatim>\<open>[FAILED] Request failed with status code {status}: {text}\<close>\<close>
  | RequestExceptionOccurred  \<comment> \<open>error \<^verbatim>\<open>Request exception occurred: {e}\<close>\<close>
  | UnexpectedError py_exception  \<comment> \<open>error \<^verbatim>\<open>Unexpected error during request: {e}\<close>\<close>

text \<open>
  What the client has done so far: the number of requests issued, the arguments of its
  \<^verbatim>\<open>time.sleep\<close> calls in order, and what it logged.
\<close>

record client_state =
  requests :: nat
  sleeps :: "pyval list"
  logged :: "log_entry list"

definition initial_client :: client_state where
  "initial_client = \<lparr>requests = 0, sleeps = [], logged = []\<rparr>"

definition log_event :: "log_entry \<Rightarrow> client_state \<Rightarrow> client_state" where
  "log_event e s = s\<lparr>logged := logged s @ [e]\<rparr>"

text \<open>
  \<^verbatim>\<open>dict.get(key, default)\<close>, which only a dictionary has: on any other object the
  attribute lookup raises \<^verbatim>\<open>AttributeError\<close>.
\<close>

fun py_get :: "pyval \<Rightarrow> string \<Rightarrow> pyval \<Rightarrow> py_exception + pyval" where
  "py_get (PyDict items) key dflt = Inr (case map_of items key of None \<Rightarrow> dflt | Some v \<Rightarrow> v)"
| "py_get _ key dflt = Inl AttributeError"

text \<open>
  \<^verbatim>\<open>wait_seconds > 0\<close>: a number (a \<^verbatim>\<open>bool\<close> counts as 0 or 1) compares with 0, \<^verbatim>\<open>nan\<close>
  compares false, anything else raises \<^verbatim>\<open>TypeError\<close>.
\<close>

fun py_gt_zero :: "pyval \<Rightarrow> py_exception + bool" where
  "py_gt_zero (PyInt i) = Inr (0 < i)"
| "py_gt_zero (PyBool b) = Inr b"
| "py_gt_zero (PyFloat (Fin m k)) = Inr (0 < m)"
| "py_gt_zero (PyFloat PosInf) = Inr True"
| "py_gt_zero (PyFloat x) = Inr False"
| "py_gt_zero v = Inl TypeError"

text \<open>
  \<^verbatim>\<open>time.sleep(w)\<close> for a positive number \<open>w\<close> raises \<^verbatim>\<open>OverflowError\<close> instead of
  sleeping when \<open>w\<close> seconds do not fit the interpreter's 64-bit count of nanoseconds
  (about 292 years). The bound is taken on the exact value; for a float within one unit in
  the last place of the bound the interpreter may differ.
\<close>

fun sleep_overflows :: "pyval \<Rightarrow> bool" where
  "sleep_overflows (PyInt i) = (2 ^ 63 \<le> i * 10 ^ 9)"
| "sleep_overflows (PyFloat (Fin m k)) = (2 ^ 63 * 2 ^ neg_part k \<le> m * 10 ^ 9 * 2 ^ pos_part k)"
| "sleep_overflows (PyFloat PosInf) = True"
| "sleep_overflows v = False"

text \<open>
  The rate-limit branch (status 429 or 423), lines 383-397, up to the recursive call:
  \<^verbatim>\<open>
  try:
      parsed_response = json.loads(response.text)
      wait_seconds = parsed_response.get("metadata", {}).get("wait", 10)
      if wait_seconds > 0:
          logging.warning(...); time.sleep(wait_seconds)
      else:
          logging.warning(...); time.sleep(10)
  except (json.JSONDecodeError, KeyError) as e:
      logging.error(...); logging.warning(...); time.sleep(10)
  \<close>
  \<open>Inr (w, e)\<close>: it slept \<open>w\<close>, logged \<open>e\<close>, and goes on to retry. \<open>Inl x\<close>: exception \<open>x\<close>
  left the branch (only \<^verbatim>\<open>JSONDecodeError\<close> and \<^verbatim>\<open>KeyError\<close> are caught there).
\<close>

definition rate_limit_wait :: "http_response \<Rightarrow> py_exception + (pyval \<times> log_entry)" where
  "rate_limit_wait r =
     (case resp_json r of
        None \<Rightarrow> Inr (PyInt 10, RateLimitParseError)
      | Some parsed_response \<Rightarrow>
          (case py_get parsed_response ''metadata'' (PyDict []) of
             Inl x \<Rightarrow> Inl x
           | Inr metadata \<Rightarrow>
               (case py_get metadata ''wait'' (PyInt 10) of
                  Inl x \<Rightarrow> Inl x
                | Inr wait_seconds \<Rightarrow>
                    (case py_gt_zero wait_seconds of
                       Inl x \<Rightarrow> Inl x
                     | Inr True \<Rightarrow>
                         if sleep_overflows wait_seconds then Inl OverflowError
                         else Inr (wait_seconds, RateLimitRetrying wait_seconds)
                     | Inr False \<Rightarrow> Inr (PyInt 10, RateLimitNoWait)))))"

text \<open>
  The branch for any other status (lines 402-418), after the \<^verbatim>\<open>[FAILED]\<close> log line. For 400
  an exception carrying the API's message is raised; for every other status the branch
  returns \<^verbatim>\<open>None\<close>. \<open>Some x\<close>: exception \<open>x\<close> is raised.
\<close>

definition bad_request_exception :: "http_response \<Rightarrow> py_exception option" where
  "bad_request_exception r =
     (if status_code r = 400 then
        (case resp_json r of
           None \<Rightarrow> Some (ApiError (PyStr (resp_text r)))
         | Some (PyDict items) \<Rightarrow>
             (case map_of items ''msg'' of
                Some msg \<Rightarrow> Some (ApiError msg)
              | None \<Rightarrow> Some (ApiError (PyStr (resp_text r))))
         | Some _ \<Rightarrow> Some (ApiError (PyStr (resp_text r))))
      else None)"

definition http_methods :: "string list" where
  "http_methods = [''GET'', ''POST'', ''PUT'', ''DELETE'']"

text \<open>
  \<^verbatim>\<open>retry_request\<close>. The whole body stands in one \<^verbatim>\<open>try\<close> whose handlers log and return
  \<^verbatim>\<open>None\<close>, for \<^verbatim>\<open>RequestException\<close> and for every other \<^verbatim>\<open>Exception\<close>; so an exception raised
  inside, the one of the 400 branch included, ends as the result \<^verbatim>\<open>None\<close> (\<open>PyNone\<close>).
  The retry is the function calling itself, with no counter: the function is partial, and
  \<open>None\<close> at the outer level means that the call does not return.
\<close>

partial_function (option) retry_request ::
  "transport \<Rightarrow> string \<Rightarrow> client_state \<Rightarrow> (pyval \<times> client_state) option" where
  "retry_request tr method s =
     (if method \<notin> set http_methods
      then Some (PyNone, log_event (UnexpectedError ValueError) s)
      else
        (case tr (requests s) of
           TransportFailure \<Rightarrow>
             Some (PyNone, log_event RequestExceptionOccurred (s\<lparr>requests := Suc (requests s)\<rparr>))
         | Response response \<Rightarrow>
             (let s1 = s\<lparr>requests := Suc (requests s)\<rparr> in
              if status_code response \<in> {200, 201} then
                (case resp_json response of
                   None \<Rightarrow> Some (PyNone, log_event (JsonError (resp_text response)) s1)
                 | Some data_json \<Rightarrow>
                     if data_json = PyList [] then Some (PyNone, log_event EmptyResponse s1)
                     else Some (data_json, s1))
              else if status_code response \<in> {429, 423} then
                (case rate_limit_wait response of
                   Inl x \<Rightarrow> Some (PyNone, log_event (UnexpectedError x) s1)
                 | Inr (w, e) \<Rightarrow>
                     retry_request tr method ((log_event e s1)\<lparr>sleeps := sleeps s1 @ [w]\<rparr>))
              else
                (let s2 = log_event (Failed (status_code response) (resp_text response)) s1 in
                 case bad_request_exception response of
                   Some x \<Rightarrow> Some (PyNone, log_event (UnexpectedError x) s2)
                 | None \<Rightarrow> Some (PyNone, s2)))))"



definition unreachable :: transport where
  "unreachable = (\<lambda>n. TransportFailure)"

definition conflict_409 :: transport where
  "conflict_409 = (\<lambda>n. Response \<lparr>status_code = 409, resp_text = ''duplicate value'', resp_json = None\<rparr>)"

definition bad_request_400 :: transport where
  "bad_request_400 = (\<lambda>n. Response \<lparr>status_code = 400, resp_text = ''duplicate value'',
     resp_json = Some (PyDict [(''msg'', PyStr ''duplicate value'')])\<rparr>)"


section \<open>The cache key\<close>

text \<open>
  \<^verbatim>\<open>_create_cache_key\<close> (\<^verbatim>\<open>utility.py\<close>, lines 428-494). Dictionaries as Python has them:
  \<^verbatim>\<open>d[k] = v\<close> replaces the value of a key in place or appends a new item, and
  \<^verbatim>\<open>d.update(e)\<close> does so for every item of \<open>e\<close> in order.
\<close>

fun dict_set :: "string \<Rightarrow> 'v \<Rightarrow> (string \<times> 'v) list \<Rightarrow> (string \<times> 'v) list" where
  "dict_set k v [] = [(k, v)]"
| "dict_set k v (item # rest) =
     (if fst item = k then (k, v) # rest else item # dict_set k v rest)"

definition dict_update :: "(string \<times> 'v) list \<Rightarrow> (string \<times> 'v) list \<Rightarrow> (string \<times> 'v) list" where
  "dict_update d e = foldl (\<lambda>acc item. dict_set (fst item) (snd item) acc) d e"

text \<open>Truth value of an object, as \<^verbatim>\<open>if params:\<close> and \<^verbatim>\<open>if payload\<close> test it.\<close>

fun py_truthy :: "pyval \<Rightarrow> bool" where
  "py_truthy PyNone = False"
| "py_truthy (PyBool b) = b"
| "py_truthy (PyInt i) = (i \<noteq> 0)"
| "py_truthy (PyFloat (Fin m k)) = (m \<noteq> 0)"
| "py_truthy (PyFloat NegZero) = False"
| "py_truthy (PyFloat x) = True"
| "py_truthy (PyStr s) = (s \<noteq> [])"
| "py_truthy (PyList xs) = (xs \<noteq> [])"
| "py_truthy (PyDict items) = (items \<noteq> [])"

text \<open>
  \<^verbatim>\<open>
  def normalize_dict(d):
      if d is None: return None
      if isinstance(d, dict):
          return {k: normalize_dict(v) for k, v in sorted(d.items())}
      elif isinstance(d, list):
          return [normalize_dict(item) for item in d]
      else:
          return str(d) if d is not None else None
  \<close>
  \<^verbatim>\<open>sorted\<close> compares the items as pairs; the keys of a dictionary are distinct, so the
  keys alone decide, and strings compare by code points, lexicographically.
\<close>

function normalize_dict :: "pyval \<Rightarrow> pyval" where
  "normalize_dict PyNone = PyNone"
| "normalize_dict (PyDict items) =
     PyDict (map (\<lambda>item. (fst item, normalize_dict (snd item))) (sort_key fst items))"
| "normalize_dict (PyList xs) = PyList (map normalize_dict xs)"
| "normalize_dict (PyBool b) = PyStr (py_str (PyBool b))"
| "normalize_dict (PyInt i) = PyStr (py_str (PyInt i))"
| "normalize_dict (PyFloat x) = PyStr (py_str (PyFloat x))"
| "normalize_dict (PyStr s) = PyStr (py_str (PyStr s))"
  by pat_completeness auto
termination
proof (relation "measure size")
  show "wf (measure size)" by simp
next
  fix items :: "(string \<times> pyval) list" and item
  assume "item \<in> set (sort_key fst items)"
  then have "item \<in> set items" by simp
  then have "size (snd item) < Suc (size_list (size_prod (\<lambda>x. 0) size) items)"
    by (induction items) (auto simp: less_Suc_eq)
  then show "(snd item, PyDict items) \<in> measure size" by simp
next
  fix xs :: "pyval list" and x
  assume "x \<in> set xs"
  then have "size x < Suc (size_list size xs)"
    by (induction xs) (auto simp: less_Suc_eq)
  then show "(x, PyList xs) \<in> measure size" by simp
qed

text \<open>
  \<^verbatim>\<open>json.dumps(v, sort_keys=True, separators=(',', ':'))\<close>: a string is quoted, with the
  quote and the backslash escaped, the usual short escapes, and \<^verbatim>\<open>\u00XX\<close> for every
  other character outside the printable ASCII range.
\<close>

definition json_escape_char :: "char \<Rightarrow> string" where
  "json_escape_char c =
     (let n = (of_char c :: nat) in
      if c = CHR 0x22 then [CHR 0x5C, CHR 0x22]
      else if c = CHR 0x5C then [CHR 0x5C, CHR 0x5C]
      else if n = 10 then [CHR 0x5C, CHR ''n'']
      else if n = 13 then [CHR 0x5C, CHR ''r'']
      else if n = 9 then [CHR 0x5C, CHR ''t'']
      else if n = 8 then [CHR 0x5C, CHR ''b'']
      else if n = 12 then [CHR 0x5C, CHR ''f'']
      else if n < 32 \<or> 126 < n then [CHR 0x5C, CHR ''u'', CHR ''0'', CHR ''0''] @ hex2 n
      else [c])"

definition json_string :: "string \<Rightarrow> string" where
  "json_string s = [CHR 0x22] @ concat (map json_escape_char s) @ [CHR 0x22]"

fun json_float :: "pyfloat \<Rightarrow> string" where
  "json_float NaN = ''NaN''"
| "json_float PosInf = ''Infinity''"
| "json_float NegInf = ''-Infinity''"
| "json_float x = float_repr x"

function json_dumps :: "pyval \<Rightarrow> string" where
  "json_dumps PyNone = ''null''"
| "json_dumps (PyBool b) = (if b then ''true'' else ''false'')"
| "json_dumps (PyInt i) = str_int i"
| "json_dumps (PyFloat x) = json_float x"
| "json_dumps (PyStr s) = json_string s"
| "json_dumps (PyList xs) = ''['' @ join '','' (map json_dumps xs) @ '']''"
| "json_dumps (PyDict items) =
     ''{'' @ join '',''
        (map (\<lambda>item. json_string (fst item) @ '':'' @ json_dumps (snd item)) (sort_key fst items))
     @ ''}''"
  by pat_completeness auto
termination
proof (relation "measure size")
  show "wf (measure size)" by simp
next
  fix xs :: "pyval list" and x
  assume "x \<in> set xs"
  then have "size x < Suc (size_list size xs)"
    by (induction xs) (auto simp: less_Suc_eq)
  then show "(x, PyList xs) \<in> measure size" by simp
next
  fix items :: "(string \<times> pyval) list" and item
  assume "item \<in> set (sort_key fst items)"
  then have "item \<in> set items" by simp
  then have "size (snd item) < Suc (size_list (size_prod (\<lambda>x. 0) size) items)"
    by (induction items) (auto simp: less_Suc_eq)
  then show "(snd item, PyDict items) \<in> measure size" by simp
qed

text \<open>
  The URL as \<^verbatim>\<open>urlparse\<close> splits it, with the query string as the list of its
  \<^verbatim>\<open>key=value\<close> pairs in order (\<^verbatim>\<open>parse_qsl(query, keep_blank_values=True)\<close>).
  \<^verbatim>\<open>parse_qs\<close> collects the values of each key, keys in order of first appearance.
\<close>

record parsed_url =
  scheme :: string
  netloc :: string
  path :: string
  query_pairs :: "(string \<times> string) list"

definition parse_qs :: "(string \<times> string) list \<Rightarrow> (string \<times> string list) list" where
  "parse_qs pairs =
     foldl (\<lambda>acc pair.
              case map_of acc (fst pair) of
                None \<Rightarrow> acc @ [(fst pair, [snd pair])]
              | Some vs \<Rightarrow> dict_set (fst pair) (vs @ [snd pair]) acc)
       [] pairs"

text \<open>\<^verbatim>\<open>all_params[k] = v[0] if len(v) == 1 else v\<close>, for every item of \<^verbatim>\<open>url_params\<close>.\<close>

definition flatten_single :: "string list \<Rightarrow> pyval" where
  "flatten_single v = (case v of [x] \<Rightarrow> PyStr x | _ \<Rightarrow> PyList (map PyStr v))"

definition all_params_of ::
  "parsed_url \<Rightarrow> (string \<times> pyval) list option \<Rightarrow> (string \<times> pyval) list" where
  "all_params_of url params =
     (let url_params = parse_qs (query_pairs url);
          from_url = dict_update [] (map (\<lambda>item. (fst item, flatten_single (snd item))) url_params)
      in case params of
           None \<Rightarrow> from_url
         | Some p \<Rightarrow> if p \<noteq> [] then dict_update from_url p else from_url)"

text \<open>
  The key. \<open>sha256\<close> stands for \<^verbatim>\<open>hashlib.sha256(s.encode('utf-8')).hexdigest()\<close>, which
  is taken as given. \<open>params\<close> is a dictionary or \<^verbatim>\<open>None\<close>; \<open>payload\<close> is any value
  (\<open>PyNone\<close> for \<^verbatim>\<open>None\<close>).
\<close>

definition create_cache_key ::
  "(string \<Rightarrow> string) \<Rightarrow> parsed_url \<Rightarrow> (string \<times> pyval) list option \<Rightarrow> pyval \<Rightarrow> string" where
  "create_cache_key sha256 url params payload =
     (let all_params = all_params_of url params;
          normalized_params = (if all_params \<noteq> [] then normalize_dict (PyDict all_params) else PyDict []);
          normalized_payload = (if py_truthy payload then normalize_dict payload else PyDict []);
          base_url = scheme url @ ''://'' @ netloc url @ path url;
          params_json = json_dumps normalized_params;
          payload_json = json_dumps normalized_payload
      in sha256 (base_url @ ''||'' @ params_json @ ''||'' @ payload_json))"

text \<open>
  Two values that are equal up to the order in which their dictionaries list their items:
  the same leaf, lists that are so element by element, and dictionaries with the same
  keys whose values are so key by key.
\<close>

inductive same_value :: "pyval \<Rightarrow> pyval \<Rightarrow> bool" where
  same_none: "same_value PyNone PyNone"
| same_bool: "same_value (PyBool b) (PyBool b)"
| same_int: "same_value (PyInt i) (PyInt i)"
| same_float: "same_value (PyFloat x) (PyFloat x)"
| same_str: "same_value (PyStr s) (PyStr s)"
| same_list: "list_all2 same_value xs ys \<Longrightarrow> same_value (PyList xs) (PyList ys)"
| same_dict:
    "distinct (map fst xs) \<Longrightarrow> distinct (map fst ys) \<Longrightarrow>
     fst ` set xs = fst ` set ys \<Longrightarrow>
     (\<forall>k \<in> fst ` set xs. same_value (the (map_of xs k)) (the (map_of ys k))) \<Longrightarrow>
     same_value (PyDict xs) (PyDict ys)"

text \<open>A URL with a query string, for examples.\<close>

definition example_url :: parsed_url where
  "example_url = \<lparr>scheme = ''https'', netloc = ''api.example.com'', path = ''/items'',
                   query_pairs = [(''page'', ''2'')]\<rparr>"

section \<open>The response cache\<close>

text \<open>
  Table \<^verbatim>\<open>app_requests_lru_cache (cache_key UNIQUE NOT NULL, response TEXT, timestamp)\<close>
  (\<^verbatim>\<open>utility.py\<close>, lines 712-718). The \<^verbatim>\<open>response\<close> column holds text. The code reads it
  with \<^verbatim>\<open>json.loads\<close> and writes it with \<^verbatim>\<open>json.dumps\<close> only, so a text is kept as what
  \<^verbatim>\<open>json.loads\<close> makes of it: the JSON document it encodes (\<^verbatim>\<open>json.dumps\<close> of a document
  is a text that encodes it), a text that is not JSON (\<^verbatim>\<open>JSONDecodeError\<close>), or \<^verbatim>\<open>NULL\<close>
  (\<^verbatim>\<open>TypeError\<close>). Timestamps are seconds.
\<close>

datatype cache_text = JsonText pyval | NotJson | NullText

record cache_row =
  cache_key :: string
  response :: cache_text
  timestamp :: int

type_synonym cache = "cache_row list"

definition cache_constraint :: "cache \<Rightarrow> bool" where
  "cache_constraint C = distinct (map cache_key C)"

text \<open>\<^verbatim>\<open>DELETE FROM app_requests_lru_cache WHERE cache_key = %s\<close> (lines 547-582).\<close>

definition delete_from_lru_cache :: "cache \<Rightarrow> string \<Rightarrow> cache" where
  "delete_from_lru_cache C key = filter (\<lambda>row. cache_key row \<noteq> key) C"

text \<open>
  \<^verbatim>\<open>get_from_lru_cache\<close> (lines 497-544), called at time \<open>now\<close>:
  \<^verbatim>\<open>
  SELECT response FROM app_requests_lru_cache
  WHERE cache_key = %s AND timestamp > NOW() - INTERVAL '3600 seconds'
  \<close>
  and, for the first row found, \<^verbatim>\<open>json.loads\<close>. An empty list and a text that is not JSON
  are deleted and \<^verbatim>\<open>None\<close> is returned. The \<^verbatim>\<open>TypeError\<close> of a \<^verbatim>\<open>NULL\<close> text is caught
  by the outer handler, which returns \<^verbatim>\<open>None\<close> and deletes nothing. The result is the
  value returned and the table afterwards.
\<close>

definition get_from_lru_cache :: "cache \<Rightarrow> int \<Rightarrow> string \<Rightarrow> pyval \<times> cache" where
  "get_from_lru_cache C now key =
     (case find (\<lambda>row. cache_key row = key \<and> timestamp row > now - 3600) C of
        None \<Rightarrow> (PyNone, C)
      | Some result_row \<Rightarrow>
          (case response result_row of
             JsonText parsed_response \<Rightarrow>
               if parsed_response = PyList [] then (PyNone, delete_from_lru_cache C key)
               else (parsed_response, C)
           | NotJson \<Rightarrow> (PyNone, delete_from_lru_cache C key)
           | NullText \<Rightarrow> (PyNone, C)))"

text \<open>
  \<^verbatim>\<open>set_in_lru_cache\<close> (lines 696-746), called at time \<open>now\<close>: a list of one element is
  stored as that element, and
  \<^verbatim>\<open>INSERT ... VALUES (%s, %s, NOW()) ON CONFLICT (cache_key) DO NOTHING\<close>.
\<close>

definition normalized_response :: "pyval \<Rightarrow> pyval" where
  "normalized_response r = (case r of PyList [x] \<Rightarrow> x | _ \<Rightarrow> r)"

definition set_in_lru_cache :: "cache \<Rightarrow> int \<Rightarrow> string \<Rightarrow> pyval \<Rightarrow> cache" where
  "set_in_lru_cache C now key r =
     (if \<exists>row \<in> set C. cache_key row = key then C
      else C @ [\<lparr>cache_key = key, response = JsonText (normalized_response r),
                  timestamp = now\<rparr>])"

section \<open>The cached client\<close>

text \<open>
  \<^verbatim>\<open>retry_request_lru\<close> (\<^verbatim>\<open>utility.py\<close>, lines 275-334). The first block looks the key up,
  for a \<^verbatim>\<open>GET\<close> only:
  \<^verbatim>\<open>
  cached_response = get_from_lru_cache(cache_key)
  if cached_response is not None:
      if cached_response == [] or (isinstance(cached_response, list) and len(cached_response) == 0):
          delete_from_lru_cache(cache_key)
      else:
          if isinstance(cached_response, str):
              try: return json.loads(cached_response)
              except json.JSONDecodeError: delete_from_lru_cache(cache_key)
          else:
              return cached_response
  \<close>
  It gives the value to return at once, if any, and the table afterwards. \<open>json_loads\<close>
  stands for \<^verbatim>\<open>json.loads\<close> on a text, \<open>None\<close> when it raises \<^verbatim>\<open>JSONDecodeError\<close>; \<open>now\<close> is
  the time of the lookup.
\<close>

definition cache_lookup ::
  "(string \<Rightarrow> pyval option) \<Rightarrow> cache \<Rightarrow> int \<Rightarrow> string \<Rightarrow> string \<Rightarrow> pyval option \<times> cache" where
  "cache_lookup json_loads C now method key =
     (if method = ''GET'' then
        (case get_from_lru_cache C now key of
           (cached_response, C1) \<Rightarrow>
             if cached_response \<noteq> PyNone then
               if cached_response = PyList [] then (None, delete_from_lru_cache C1 key)
               else
                 (case cached_response of
                    PyStr text \<Rightarrow>
                      (case json_loads text of
                         Some v \<Rightarrow> (Some v, C1)
                       | None \<Rightarrow> (None, delete_from_lru_cache C1 key))
                  | _ \<Rightarrow> (Some cached_response, C1))
             else (None, C1))
      else (None, C))"

text \<open>
  The whole call, from a table \<open>C\<close> and a client state \<open>s\<close>: the lookup at time \<open>now\<close>,
  then \<^verbatim>\<open>retry_request\<close>, then
  \<^verbatim>\<open>
  if result is not None and method == 'GET':
      if not (result == [] or (isinstance(result, list) and len(result) == 0)):
          set_in_lru_cache(cache_key, result)
  return result
  \<close>
  with the store at time \<open>later\<close>. The result is the value returned, the table and the
  client state afterwards; \<open>None\<close> when \<^verbatim>\<open>retry_request\<close> does not return.
\<close>

definition retry_request_lru ::
  "(string \<Rightarrow> string) \<Rightarrow> (string \<Rightarrow> pyval option) \<Rightarrow> transport \<Rightarrow> int \<Rightarrow> int \<Rightarrow>
   parsed_url \<Rightarrow> string \<Rightarrow> pyval \<Rightarrow> (string \<times> pyval) list option \<Rightarrow>
   cache \<Rightarrow> client_state \<Rightarrow> (pyval \<times> cache \<times> client_state) option" where
  "retry_request_lru sha256 json_loads tr now later url method payload params C s =
     (let key = create_cache_key sha256 url params payload in
      case cache_lookup json_loads C now method key of
        (Some cached_response, C1) \<Rightarrow> Some (cached_response, C1, s)
      | (None, C1) \<Rightarrow>
          (case retry_request tr method s of
             None \<Rightarrow> None
           | Some (result, s') \<Rightarrow>
               Some (result,
                     (if result \<noteq> PyNone \<and> method = ''GET'' \<and> result \<noteq> PyList []
                      then set_in_lru_cache C1 later key result else C1),
                     s')))"

text \<open>A server that answers every request with 200 and the empty list.\<close>

definition empty_list_200 :: transport where
  "empty_list_200 = (\<lambda>n. Response \<lparr>status_code = 200, resp_text = ''[]'',
     resp_json = Some (PyList [])\<rparr>)"

text \<open>A table whose one row holds the empty list, under the key of a request with no parameters.\<close>

definition example_cache :: cache where
  "example_cache = [\<lparr>cache_key = create_cache_key (\<lambda>s. s) example_url None PyNone,
                      response = JsonText (PyList []), timestamp = 100\<rparr>]"

section \<open>Evaluating the number functions\<close>

text \<open>The recursive functions unfold on numerals only, so that the simplifier evaluates
  closed terms and leaves open ones alone.\<close>

lemma bit_length_numeral [simp]:
  "bit_length (numeral n) = 1 + bit_length (numeral n div 2)"
  "bit_length 1 = 1" "bit_length 0 = 0"
  by (simp_all add: bit_length.simps)

lemma dec_length_numeral [simp]:
  "dec_length (numeral n) = 1 + dec_length (numeral n div 10)"
  "dec_length 1 = 1" "dec_length 0 = 0"
  by (simp_all add: dec_length.simps)

lemma digits_numeral [simp]:
  "digits (numeral n) =
     (if (numeral n :: int) < 10 then [''0123456789'' ! nat (numeral n)]
      else digits (numeral n div 10) @ [''0123456789'' ! nat (numeral n mod 10)])"
  "digits 1 = ''1''" "digits 0 = ''0''"
  by (simp_all add: digits.simps)

lemma canonical_numeral [simp]:
  "canonical (numeral n) k =
     (if even (numeral n :: int) then canonical (numeral n div 2) (k + 1) else Fin (numeral n) k)"
  "canonical (- numeral n) k =
     (if even (numeral n :: int) then canonical (- numeral n div 2) (k + 1) else Fin (- numeral n) k)"
  "canonical 1 k = Fin 1 k" "canonical (- 1) k = Fin (- 1) k" "canonical 0 k = Fin 0 0"
  by (simp_all add: canonical.simps)

lemma replicate_numeral_unfold:
  "replicate (numeral n) x = x # replicate (pred_numeral n) x"
  by (simp add: numeral_eq_Suc)

lemmas num_eval = replicate_numeral_unfold pos_part_def neg_part_def round_half_even_def
  floor_log_from_def floor_log2_def floor_log10_def double_of_mantissa_def
  round_at_exponent_def round_to_double_def str_int_def
  is_digit_def digit_val_def int_of_digits_def is_space_def strip_def rstrip_def to_lower_def
  split_sign_def parse_exponent_def parse_number_def parse_decimal_def
  zero_pad_def fixed9_def

lemmas repr_eval = rounds_to_def choose_candidate_def candidate_scaled_def candidate_at_def
  candidate_def seventeen_digits_def digits_and_point_def shortest_digits_def exponent_text_def
  float_literal_def

section \<open>Properties of the ledger\<close>





lemma rows_of_other:
  "u \<noteq> unique_transaction_id r \<Longrightarrow>
   rows_of (insert_on_conflict_update r L) u = rows_of L u"
proof -
  have upd: "u \<noteq> v \<Longrightarrow>
      filter (\<lambda>x. unique_transaction_id x = u)
        (map (\<lambda>x. if unique_transaction_id x = v then x\<lparr>status_text := t, status := s\<rparr> else x) L)
      = filter (\<lambda>x. unique_transaction_id x = u) L" for v t s
    by (induction L) auto
  assume "u \<noteq> unique_transaction_id r"
  then show ?thesis
    by (auto simp: rows_of_def insert_on_conflict_update_def upd)
qed




section \<open>Properties of the retrying HTTP client\<close>

lemma log_event_simps [simp]:
  "requests (log_event e s) = requests s"
  "sleeps (log_event e s) = sleeps s"
  "logged (log_event e s) = logged s @ [e]"
  by (simp_all add: log_event_def)

text \<open>With no parseable body the rate-limit branch sleeps its default of 10 seconds.\<close>

lemma rate_limit_wait_no_hint:
  "resp_json r = None \<Longrightarrow> rate_limit_wait r = Inr (PyInt 10, RateLimitParseError)"
  by (simp add: rate_limit_wait_def)









text \<open>
  C5, as stated, fails. When the transport fails the client makes one attempt, not three:
  it logs the exception and returns \<^verbatim>\<open>None\<close> at once, without sleeping.
\<close>

theorem unreachable_server_one_attempt:
  "retry_request unreachable ''GET'' initial_client =
   Some (PyNone, \<lparr>requests = 1, sleeps = [], logged = [RequestExceptionOccurred]\<rparr>)"
  by (simp add: retry_request.simps unreachable_def initial_client_def http_methods_def log_event_def)

text \<open>
  C5, amended. For every request whose transport fails (timeout, connection error), the
  client does not retry: that attempt is its last, it does not sleep, and it returns the
  failure (\<^verbatim>\<open>None\<close>) to the caller after logging the exception.
\<close>

theorem transport_failure_not_retried:
  assumes "m \<in> set http_methods" and "tr (requests s) = TransportFailure"
  shows "retry_request tr m s =
         Some (PyNone, log_event RequestExceptionOccurred (s\<lparr>requests := Suc (requests s)\<rparr>))"
  using assms by (subst retry_request.simps) simp

theorem transport_failure_not_retried_witness:
  "''POST'' \<in> set http_methods \<and> unreachable (requests initial_client) = TransportFailure
   \<and> retry_request unreachable ''POST'' initial_client =
       Some (PyNone, log_event RequestExceptionOccurred
         (initial_client\<lparr>requests := Suc (requests initial_client)\<rparr>))"
  using transport_failure_not_retried [of "''POST''" unreachable initial_client]
  by (simp add: http_methods_def unreachable_def)

text \<open>
  C6, as stated, fails. A 409 whose body says \<^verbatim>\<open>duplicate value\<close> is not retried, but the
  caller gets \<^verbatim>\<open>None\<close>: the body goes to the error log and nowhere else.
\<close>

theorem conflict_body_not_returned:
  "retry_request conflict_409 ''POST'' initial_client =
   Some (PyNone, \<lparr>requests = 1, sleeps = [], logged = [Failed 409 ''duplicate value'']\<rparr>)"
  by (simp add: retry_request.simps conflict_409_def initial_client_def http_methods_def
      log_event_def bad_request_exception_def)

text \<open>
  C6, amended. For every response with a 4xx status other than 429 and 423, the send
  operation does not retry: that request is its last, it does not sleep, and it writes the
  status and the response body to the error log. For every such status other than 400 it
  returns \<^verbatim>\<open>None\<close> to the caller, so the body reaches the log and not the caller.
\<close>

theorem client_error_not_retried:
  assumes "m \<in> set http_methods" and "tr (requests s) = Response r"
    and "400 \<le> status_code r" and "status_code r < 500"
    and "status_code r \<notin> {429, 423}"
  shows "\<exists>res s'. retry_request tr m s = Some (res, s')
           \<and> requests s' = Suc (requests s) \<and> sleeps s' = sleeps s
           \<and> Failed (status_code r) (resp_text r) \<in> set (logged s')
           \<and> (status_code r \<noteq> 400 \<longrightarrow>
                res = PyNone \<and> logged s' = logged s @ [Failed (status_code r) (resp_text r)])"
  using assms
  by (subst retry_request.simps)
     (auto simp: Let_def bad_request_exception_def split: option.splits)

theorem client_error_not_retried_witness:
  "''POST'' \<in> set http_methods
   \<and> conflict_409 (requests initial_client)
       = Response \<lparr>status_code = 409, resp_text = ''duplicate value'', resp_json = None\<rparr>
   \<and> (400::nat) \<le> 409 \<and> (409::nat) < 500 \<and> (409::nat) \<notin> {429, 423}
   \<and> (\<exists>res s'. retry_request conflict_409 ''POST'' initial_client = Some (res, s')
         \<and> requests s' = Suc (requests initial_client) \<and> sleeps s' = sleeps initial_client
         \<and> Failed 409 ''duplicate value'' \<in> set (logged s')
         \<and> res = PyNone
         \<and> logged s' = logged initial_client @ [Failed 409 ''duplicate value''])"
  using client_error_not_retried [of "''POST''" conflict_409 initial_client
      "\<lparr>status_code = 409, resp_text = ''duplicate value'', resp_json = None\<rparr>"]
  by (simp add: http_methods_def conflict_409_def)

text \<open>
  The 400 branch raises an exception that carries the API's message (``raise an exception
  with the API error details'', as the comment at line 406 has it), but it does so inside
  the function's own \<^verbatim>\<open>try\<close>, whose \<^verbatim>\<open>except Exception\<close> logs it and returns \<^verbatim>\<open>None\<close>: the
  message never leaves the function.
\<close>

lemma bad_request_detail_swallowed:
  "retry_request bad_request_400 ''POST'' initial_client =
   Some (PyNone, \<lparr>requests = 1, sleeps = [],
     logged = [Failed 400 ''duplicate value'', UnexpectedError (ApiError (PyStr ''duplicate value''))]\<rparr>)"
  by (simp add: retry_request.simps bad_request_400_def initial_client_def http_methods_def
      log_event_def bad_request_exception_def)

section \<open>The cache key does not depend on the order of the parameters\<close>

text \<open>Assignment and \<^verbatim>\<open>update\<close> on dictionaries: keys, and the value found under a key.\<close>

lemma dict_set_keys: "fst ` set (dict_set k v d) = insert k (fst ` set d)"
  by (induction d) auto

lemma dict_set_distinct: "distinct (map fst d) \<Longrightarrow> distinct (map fst (dict_set k v d))"
  by (induction d) (auto simp: dict_set_keys)

lemma dict_set_map_of:
  "map_of (dict_set k v d) = (map_of d)(k \<mapsto> v)"
  by (induction d) (auto simp: fun_eq_iff)

lemma dict_update_keys: "fst ` set (dict_update d e) = fst ` set d \<union> fst ` set e"
  unfolding dict_update_def
  by (induction e arbitrary: d) (auto simp: dict_set_keys)

lemma dict_update_distinct: "distinct (map fst d) \<Longrightarrow> distinct (map fst (dict_update d e))"
  unfolding dict_update_def
  by (induction e arbitrary: d) (auto simp: dict_set_distinct)

lemma dict_update_map_of:
  "map_of (dict_update d e) = map_of d ++ map_of (rev e)"
  unfolding dict_update_def
proof (induction e arbitrary: d)
  case Nil
  then show ?case by simp
next
  case (Cons item e)
  show ?case
    by (simp add: Cons.IH dict_set_map_of map_add_def fun_eq_iff split: option.splits)
qed

lemma map_of_rev_distinct:
  assumes "distinct (map fst e)"
  shows "map_of (rev e) = map_of e"
proof
  fix k
  have d: "distinct (map fst (rev e))"
    using assms by (simp add: rev_map[symmetric])
  show "map_of (rev e) k = map_of e k"
  proof (cases "map_of e k")
    case None
    then have "k \<notin> fst ` set e" by (simp add: map_of_eq_None_iff)
    then have "k \<notin> fst ` set (rev e)" by simp
    then have "map_of (rev e) k = None" by (subst map_of_eq_None_iff)
    with None show ?thesis by simp
  next
    case (Some v)
    then have "(k, v) \<in> set e" by (rule map_of_SomeD)
    then have "(k, v) \<in> set (rev e)" by simp
    with d have "map_of (rev e) k = Some v" by (rule map_of_is_SomeI)
    with Some show ?thesis by simp
  qed
qed

lemma dict_update_lookup:
  assumes "distinct (map fst e)"
  shows "map_of (dict_update d e) k = (case map_of e k of None \<Rightarrow> map_of d k | Some v \<Rightarrow> Some v)"
  by (simp add: dict_update_map_of map_of_rev_distinct[OF assms] map_add_def)

text \<open>
  Sorting the items of a dictionary gives one list, whatever order they were inserted in,
  and mapping the values commutes with it.
\<close>

lemma insort_key_map_fst:
  assumes "\<And>x. fst (f x) = fst x"
  shows "insort_key fst (f x) (map f ys) = map f (insort_key fst x ys)"
  by (induction ys) (auto simp: assms)

lemma sort_key_map_fst:
  assumes "\<And>x. fst (f x) = fst x"
  shows "sort_key fst (map f xs) = map f (sort_key fst xs)"
  by (induction xs) (auto simp: insort_key_map_fst[OF assms])

lemma sort_key_fst_unique:
  fixes xs ys :: "(string \<times> 'v) list"
  assumes "distinct (map fst xs)" "distinct (map fst ys)" "set xs = set ys"
  shows "sort_key fst xs = sort_key fst ys"
proof (rule map_sorted_distinct_set_unique[where f = fst])
  have "inj_on fst (set xs)"
    using assms(1) by (simp add: distinct_map)
  then show "inj_on fst (set (sort_key fst xs) \<union> set (sort_key fst ys))"
    using assms(3) by simp
  show "sorted (map fst (sort_key fst xs))" "sorted (map fst (sort_key fst ys))"
    by (rule sorted_sort_key)+
  show "distinct (map fst (sort_key fst xs))"
    using assms(1) by (simp add: distinct_map)
  show "distinct (map fst (sort_key fst ys))"
    using assms(2) by (simp add: distinct_map)
  show "set (sort_key fst xs) = set (sort_key fst ys)"
    using assms(3) by simp
qed

text \<open>
  \<^verbatim>\<open>normalize_dict\<close> gives two dictionaries the same result when they have the same keys
  and, under each key, values with the same normal form.
\<close>

lemma normalized_items_subset:
  assumes dx: "distinct (map fst xs)" and dy: "distinct (map fst ys)"
    and keys: "fst ` set xs = fst ` set ys"
    and vals: "\<forall>k \<in> fst ` set xs. g (the (map_of xs k)) = g (the (map_of ys k))"
  shows "(\<lambda>item. (fst item, g (snd item))) ` set xs \<subseteq> (\<lambda>item. (fst item, g (snd item))) ` set ys"
proof
  fix p assume "p \<in> (\<lambda>item. (fst item, g (snd item))) ` set xs"
  then obtain k v where kv: "(k, v) \<in> set xs" and p: "p = (k, g v)" by auto
  then have k: "k \<in> fst ` set xs" by force
  with keys obtain w where kw: "(k, w) \<in> set ys" by force
  from dx kv have "map_of xs k = Some v" by simp
  moreover from dy kw have "map_of ys k = Some w" by simp
  ultimately have "g v = g w" using vals k by force
  with p kw show "p \<in> (\<lambda>item. (fst item, g (snd item))) ` set ys" by force
qed

lemma normalize_dict_cong:
  assumes dx: "distinct (map fst xs)" and dy: "distinct (map fst ys)"
    and keys: "fst ` set xs = fst ` set ys"
    and vals: "\<forall>k \<in> fst ` set xs.
                 normalize_dict (the (map_of xs k)) = normalize_dict (the (map_of ys k))"
  shows "normalize_dict (PyDict xs) = normalize_dict (PyDict ys)"
proof -
  let ?f = "\<lambda>item :: string \<times> pyval. (fst item, normalize_dict (snd item))"
  have fst_f: "\<And>x. fst (?f x) = fst x" by simp
  have keep: "map fst (map ?f zs) = map fst zs" for zs by simp
  have "set (map ?f xs) = set (map ?f ys)"
  proof
    show "set (map ?f xs) \<subseteq> set (map ?f ys)"
      using normalized_items_subset[OF dx dy keys vals] by simp
    have "\<forall>k \<in> fst ` set ys.
        normalize_dict (the (map_of ys k)) = normalize_dict (the (map_of xs k))"
      using vals keys by simp
    from normalized_items_subset[OF dy dx keys[symmetric] this]
    show "set (map ?f ys) \<subseteq> set (map ?f xs)" by simp
  qed
  moreover have "distinct (map fst (map ?f xs))" "distinct (map fst (map ?f ys))"
    using dx dy by (simp_all only: keep)
  ultimately have "sort_key fst (map ?f xs) = sort_key fst (map ?f ys)"
    by (intro sort_key_fst_unique)
  then have "map ?f (sort_key fst xs) = map ?f (sort_key fst ys)"
    by (simp only: sort_key_map_fst[of ?f, OF fst_f])
  then show ?thesis by simp
qed

inductive_cases same_dictE: "same_value (PyDict xs) (PyDict ys)"

lemma same_value_normalize: "same_value a b \<Longrightarrow> normalize_dict a = normalize_dict b"
proof (induction rule: same_value.induct)
  case (same_list xs ys)
  then have "map normalize_dict xs = map normalize_dict ys"
    by (induction xs ys rule: list_all2_induct) auto
  then show ?case by simp
next
  case (same_dict xs ys)
  show ?case
    by (rule normalize_dict_cong) (use same_dict in auto)
qed simp_all

text \<open>
  The merged parameters: the parameters of the URL's query string, overridden by the
  explicit ones.
\<close>

lemma all_params_of_same:
  assumes "same_value (PyDict params1) (PyDict params2)"
  shows "(all_params_of url (Some params1) = []) = (all_params_of url (Some params2) = [])"
    and "normalize_dict (PyDict (all_params_of url (Some params1))) =
         normalize_dict (PyDict (all_params_of url (Some params2)))"
proof -
  define from_url where "from_url =
    dict_update [] (map (\<lambda>item. (fst item, flatten_single (snd item))) (parse_qs (query_pairs url)))"
  from assms have d1: "distinct (map fst params1)" by (rule same_dictE)
  from assms have d2: "distinct (map fst params2)" by (rule same_dictE)
  from assms have keys: "fst ` set params1 = fst ` set params2" by (rule same_dictE)
  from assms have "\<forall>item \<in> set params2.
      same_value (the (map_of params1 (fst item))) (the (map_of params2 (fst item)))"
    by (rule same_dictE)
  then have vals: "\<forall>k \<in> fst ` set params1.
      same_value (the (map_of params1 k)) (the (map_of params2 k))"
    unfolding keys by (simp only: ball_simps)
  have empty: "(params1 = []) = (params2 = [])"
    using keys by (cases params1; cases params2) auto
  have base: "distinct (map fst from_url)"
    unfolding from_url_def by (rule dict_update_distinct) simp
  show "normalize_dict (PyDict (all_params_of url (Some params1))) =
        normalize_dict (PyDict (all_params_of url (Some params2)))"
  proof (cases "params1 = []")
    case True
    with empty show ?thesis by (simp add: all_params_of_def)
  next
    case False
    with empty have a1: "all_params_of url (Some params1) = dict_update from_url params1"
      and a2: "all_params_of url (Some params2) = dict_update from_url params2"
      by (simp_all add: all_params_of_def from_url_def)
    have "normalize_dict (PyDict (dict_update from_url params1)) =
          normalize_dict (PyDict (dict_update from_url params2))"
    proof (rule normalize_dict_cong)
      show "distinct (map fst (dict_update from_url params1))"
        and "distinct (map fst (dict_update from_url params2))"
        using base by (rule dict_update_distinct)+
      show "fst ` set (dict_update from_url params1) = fst ` set (dict_update from_url params2)"
        using keys by (simp add: dict_update_keys)
      show "\<forall>k \<in> fst ` set (dict_update from_url params1).
              normalize_dict (the (map_of (dict_update from_url params1) k)) =
              normalize_dict (the (map_of (dict_update from_url params2) k))"
      proof
        fix k
        show "normalize_dict (the (map_of (dict_update from_url params1) k)) =
              normalize_dict (the (map_of (dict_update from_url params2) k))"
        proof (cases "k \<in> fst ` set params1")
          case True
          with keys have k2: "k \<in> fst ` set params2" by simp
          from True obtain v where v: "map_of params1 k = Some v"
            by (cases "map_of params1 k") (auto simp: map_of_eq_None_iff)
          from k2 obtain w where w: "map_of params2 k = Some w"
            by (cases "map_of params2 k") (auto simp: map_of_eq_None_iff)
          from vals True v w have "same_value v w" by force
          then have "normalize_dict v = normalize_dict w" by (rule same_value_normalize)
          with v w show ?thesis
            by (simp add: dict_update_lookup[OF d1] dict_update_lookup[OF d2])
        next
          case False
          with keys have k2: "k \<notin> fst ` set params2" by simp
          from False have "map_of params1 k = None" by (simp add: map_of_eq_None_iff)
          moreover from k2 have "map_of params2 k = None" by (simp add: map_of_eq_None_iff)
          ultimately show ?thesis
            by (simp add: dict_update_lookup[OF d1] dict_update_lookup[OF d2])
        qed
      qed
    qed
    with a1 a2 show ?thesis by simp
  qed
  have "fst ` set (all_params_of url (Some params1)) = fst ` set (all_params_of url (Some params2))"
    using keys empty by (simp add: all_params_of_def Let_def dict_update_keys)
  then show "(all_params_of url (Some params1) = []) = (all_params_of url (Some params2) = [])"
    by (metis image_is_empty set_empty)
qed

text \<open>
  C8. For every URL, every body and every choice of the digest, two parameter
  dictionaries that hold the same value under the same keys at every nesting depth, their
  items in any order, get the same cache key. The values are compared as \<open>same_value\<close>
  does: leaves are the same value of the same type, lists agree element by element, and
  dictionaries agree key by key.
\<close>

theorem cache_key_ignores_parameter_order:
  assumes "same_value (PyDict params1) (PyDict params2)"
  shows "create_cache_key sha256 url (Some params1) payload =
         create_cache_key sha256 url (Some params2) payload"
  using all_params_of_same[OF assms, of url]
  by (simp add: create_cache_key_def Let_def)

text \<open>
  The parameters \<^verbatim>\<open>{'a': 1, 'b': 2}\<close> and \<^verbatim>\<open>{'b': 2, 'a': 1}\<close>, with the key text itself
  in place of its digest.
\<close>

lemma same_value_example:
  "same_value (PyDict [(''a'', PyInt 1), (''b'', PyInt 2)]) (PyDict [(''b'', PyInt 2), (''a'', PyInt 1)])"
  by (rule same_dict) (auto intro: same_value.intros)

theorem cache_key_ignores_parameter_order_witness:
  "same_value (PyDict [(''a'', PyInt 1), (''b'', PyInt 2)]) (PyDict [(''b'', PyInt 2), (''a'', PyInt 1)])
   \<and> create_cache_key (\<lambda>s. s) example_url (Some [(''a'', PyInt 1), (''b'', PyInt 2)]) PyNone =
     create_cache_key (\<lambda>s. s) example_url (Some [(''b'', PyInt 2), (''a'', PyInt 1)]) PyNone"
  using cache_key_ignores_parameter_order[OF same_value_example, of "\<lambda>s. s" example_url PyNone]
    same_value_example
  by simp

text \<open>The key is not constant: another value under the same key changes the text hashed.\<close>

lemma cache_key_depends_on_values:
  "create_cache_key (\<lambda>s. s) example_url (Some [(''a'', PyStr ''x'')]) PyNone \<noteq>
   create_cache_key (\<lambda>s. s) example_url (Some [(''a'', PyStr ''y'')]) PyNone"
  by (simp add: create_cache_key_def all_params_of_def example_url_def parse_qs_def
      dict_update_def flatten_single_def json_string_def json_escape_char_def Let_def
      py_str_def str_int_def)

section \<open>Properties of the response cache\<close>

lemma find_append_cases:
  "find P (xs @ ys) = (case find P xs of None \<Rightarrow> find P ys | Some x \<Rightarrow> Some x)"
  by (induction xs) auto

lemma not_own_singleton: "x \<noteq> PyList [x]"
proof
  assume "x = PyList [x]"
  then have "size x = size (PyList [x])" by simp
  then show False by simp
qed

lemma normalized_response_single [simp]: "normalized_response (PyList [x]) = x"
  by (simp add: normalized_response_def)

lemma normalized_response_other:
  "(\<forall>x. r \<noteq> PyList [x]) \<Longrightarrow> normalized_response r = r"
  by (auto simp: normalized_response_def split: pyval.splits list.splits)

text \<open>A read within the hour of a store, under a key that had no row.\<close>

lemma get_after_set_fresh:
  assumes "\<forall>row \<in> set C. cache_key row \<noteq> key" and "t' < t + 3600"
  shows "fst (get_from_lru_cache (set_in_lru_cache C t key r) t' key)
         = (if normalized_response r = PyList [] then PyNone else normalized_response r)"
proof -
  have "find (\<lambda>row. cache_key row = key \<and> timestamp row > t' - 3600) C = None"
    using assms(1) by (auto simp: find_None_iff)
  then have "find (\<lambda>row. cache_key row = key \<and> timestamp row > t' - 3600)
      (set_in_lru_cache C t key r)
      = Some \<lparr>cache_key = key, response = JsonText (normalized_response r), timestamp = t\<rparr>"
    using assms by (auto simp: set_in_lru_cache_def find_append_cases)
  then show ?thesis
    by (simp add: get_from_lru_cache_def)
qed

text \<open>
  C10, as stated, fails at one input. Storing the one-element list \<^verbatim>\<open>[[]]\<close> persists its
  element \<^verbatim>\<open>[]\<close>, and a read right after does not return that element: the read takes the
  entry for an empty response, deletes it and returns \<^verbatim>\<open>None\<close>.
\<close>

theorem stored_empty_element_reads_absent:
  "get_from_lru_cache (set_in_lru_cache [] 0 ''k'' (PyList [PyList []])) 0 ''k'' = (PyNone, [])"
  by (simp add: get_from_lru_cache_def set_in_lru_cache_def delete_from_lru_cache_def)

text \<open>
  C10, amended. Under a cache key with no row, storing a one-element list \<^verbatim>\<open>[x]\<close> persists
  \<open>x\<close> itself, so a read within the freshness window returns \<open>x\<close> and never \<^verbatim>\<open>[x]\<close>;
  only when \<open>x\<close> is the empty list does the read return \<^verbatim>\<open>None\<close> (it deletes the
  entry). A response that is neither a one-element list nor the empty list is read back
  unchanged. Storing under a key that already has a row, stale or not, leaves the table
  (response and timestamp) as it was.
\<close>

theorem put_then_get_unwraps_singleton:
  assumes "\<forall>row \<in> set C. cache_key row \<noteq> key" and "t' < t + 3600"
  shows "set_in_lru_cache C t key (PyList [x])
           = C @ [\<lparr>cache_key = key, response = JsonText x, timestamp = t\<rparr>]
       \<and> fst (get_from_lru_cache (set_in_lru_cache C t key (PyList [x])) t' key)
           = (if x = PyList [] then PyNone else x)
       \<and> fst (get_from_lru_cache (set_in_lru_cache C t key (PyList [x])) t' key) \<noteq> PyList [x]
       \<and> ((\<forall>y. r \<noteq> PyList [y]) \<and> r \<noteq> PyList [] \<longrightarrow>
            fst (get_from_lru_cache (set_in_lru_cache C t key r) t' key) = r)
       \<and> ((\<exists>row \<in> set D. cache_key row = key) \<longrightarrow> set_in_lru_cache D t key r = D)"
proof (intro conjI impI)
  show "set_in_lru_cache C t key (PyList [x])
      = C @ [\<lparr>cache_key = key, response = JsonText x, timestamp = t\<rparr>]"
    using assms(1) by (auto simp: set_in_lru_cache_def)
  show got: "fst (get_from_lru_cache (set_in_lru_cache C t key (PyList [x])) t' key)
      = (if x = PyList [] then PyNone else x)"
    using get_after_set_fresh[OF assms, of "PyList [x]"] by simp
  show "fst (get_from_lru_cache (set_in_lru_cache C t key (PyList [x])) t' key) \<noteq> PyList [x]"
    unfolding got using not_own_singleton[of x] by auto
  show "fst (get_from_lru_cache (set_in_lru_cache C t key r) t' key) = r"
    if "(\<forall>y. r \<noteq> PyList [y]) \<and> r \<noteq> PyList []"
    using that get_after_set_fresh[OF assms, of r] by (simp add: normalized_response_other)
  show "set_in_lru_cache D t key r = D" if "\<exists>row \<in> set D. cache_key row = key"
    using that by (simp add: set_in_lru_cache_def)
qed

theorem put_then_get_unwraps_singleton_witness:
  "(0::int) < 0 + 3600
   \<and> set_in_lru_cache [] 0 ''k'' (PyList [PyInt 7])
       = [\<lparr>cache_key = ''k'', response = JsonText (PyInt 7), timestamp = 0\<rparr>]
   \<and> fst (get_from_lru_cache (set_in_lru_cache [] 0 ''k'' (PyList [PyInt 7])) 0 ''k'') = PyInt 7
   \<and> fst (get_from_lru_cache (set_in_lru_cache [] 0 ''k'' (PyList [PyInt 7])) 0 ''k'')
       \<noteq> PyList [PyInt 7]
   \<and> fst (get_from_lru_cache (set_in_lru_cache [] 0 ''k'' (PyList [PyInt 1, PyInt 2])) 0 ''k'')
       = PyList [PyInt 1, PyInt 2]
   \<and> set_in_lru_cache [\<lparr>cache_key = ''k'', response = JsonText (PyInt 7), timestamp = - 9000\<rparr>]
         0 ''k'' (PyList [PyInt 1, PyInt 2])
       = [\<lparr>cache_key = ''k'', response = JsonText (PyInt 7), timestamp = - 9000\<rparr>]"
  using put_then_get_unwraps_singleton
    [of "[]" "''k''" 0 0 "PyInt 7" "PyList [PyInt 1, PyInt 2]"
      "[\<lparr>cache_key = ''k'', response = JsonText (PyInt 7), timestamp = - 9000\<rparr>]"]
  by (simp add: set_in_lru_cache_def get_from_lru_cache_def)

section \<open>Empty responses and the cache\<close>

text \<open>
  What \<^verbatim>\<open>retry_request\<close> returns is never the empty list, and when the answer to its last
  request is a 200 or 201 with the body \<^verbatim>\<open>[]\<close> it returns \<^verbatim>\<open>None\<close>.
\<close>

lemma retry_request_result:
  assumes "retry_request tr m s = Some y"
  shows "fst y \<noteq> PyList [] \<and> requests s \<le> requests (snd y)
       \<and> (requests s < requests (snd y) \<longrightarrow>
            (\<forall>r. tr (requests (snd y) - 1) = Response r \<longrightarrow> status_code r \<in> {200, 201} \<longrightarrow>
                 resp_json r = Some (PyList []) \<longrightarrow> fst y = PyNone))"
  apply (rule retry_request.raw_induct
    [where P = "\<lambda>tr m s y. fst y \<noteq> PyList [] \<and> requests s \<le> requests (snd y)
       \<and> (requests s < requests (snd y) \<longrightarrow>
            (\<forall>r. tr (requests (snd y) - 1) = Response r \<longrightarrow> status_code r \<in> {200, 201} \<longrightarrow>
                 resp_json r = Some (PyList []) \<longrightarrow> fst y = PyNone))",
      OF _ assms])
  subgoal premises p for f tr m s y
  proof (cases "m \<in> set http_methods")
    case False
    with p(2) show ?thesis by auto
  next
    case True
    show ?thesis
    proof (cases "tr (requests s)")
      case TransportFailure
      with p(2) True show ?thesis by auto
    next
      case (Response r)
      show ?thesis
      proof (cases "status_code r \<in> {429, 423}")
        case False
        with p(2) True Response show ?thesis
          by (auto simp: Let_def split: option.splits if_splits)
      next
        case limited: True
        show ?thesis
        proof (cases "rate_limit_wait r")
          case (Inl x)
          with p(2) True Response limited show ?thesis
            by (auto simp: Let_def split: option.splits if_splits)
        next
          case (Inr we)
          obtain w e where we: "we = (w, e)" by (cases we)
          let ?s = "(log_event e (s\<lparr>requests := Suc (requests s)\<rparr>))\<lparr>sleeps := sleeps s @ [w]\<rparr>"
          from p(2) True Response limited Inr we have "f tr m ?s = Some y"
            by (auto simp: Let_def split: if_splits)
          from p(1)[OF this] have ih: "fst y \<noteq> PyList []" "Suc (requests s) \<le> requests (snd y)"
            "Suc (requests s) < requests (snd y) \<longrightarrow>
              (\<forall>r. tr (requests (snd y) - 1) = Response r \<longrightarrow> status_code r \<in> {200, 201} \<longrightarrow>
                 resp_json r = Some (PyList []) \<longrightarrow> fst y = PyNone)"
            by simp_all
          show ?thesis
          proof (cases "Suc (requests s) < requests (snd y)")
            case True
            with ih show ?thesis by simp
          next
            case False
            with ih(2) have "requests (snd y) - 1 = requests s" by simp
            with Response limited ih show ?thesis by auto
          qed
        qed
      qed
    qed
  qed
  done

text \<open>Reads after a delete, of a stale row, and of a row whose text is \<^verbatim>\<open>NULL\<close> or \<^verbatim>\<open>null\<close>.\<close>

lemma get_after_delete:
  "get_from_lru_cache (delete_from_lru_cache C key) t key = (PyNone, delete_from_lru_cache C key)"
proof -
  have "find (\<lambda>row. cache_key row = key \<and> timestamp row > t - 3600)
          (delete_from_lru_cache C key) = None"
    by (auto simp: find_None_iff delete_from_lru_cache_def)
  then show ?thesis by (simp add: get_from_lru_cache_def)
qed

lemma delete_twice [simp]:
  "delete_from_lru_cache (delete_from_lru_cache C key) key = delete_from_lru_cache C key"
  by (simp add: delete_from_lru_cache_def)

lemma delete_subset: "set (delete_from_lru_cache C key) \<subseteq> set C"
  by (auto simp: delete_from_lru_cache_def)

lemma get_subset: "set (snd (get_from_lru_cache C t key)) \<subseteq> set C"
  using delete_subset[of C key]
  by (auto simp: get_from_lru_cache_def split: option.splits cache_text.splits)

lemma get_stale_later:
  assumes "find (\<lambda>row. cache_key row = key \<and> timestamp row > now - 3600) C = None" and "now \<le> t"
  shows "get_from_lru_cache C t key = (PyNone, C)"
proof -
  have "find (\<lambda>row. cache_key row = key \<and> timestamp row > t - 3600) C = None"
    using assms by (fastforce simp: find_None_iff)
  then show ?thesis by (simp add: get_from_lru_cache_def)
qed

lemma get_null_later:
  assumes "cache_constraint C"
    and "find (\<lambda>row. cache_key row = key \<and> timestamp row > now - 3600) C = Some row"
    and "response row = NullText \<or> response row = JsonText PyNone"
  shows "get_from_lru_cache C t key = (PyNone, C)"
proof (cases "find (\<lambda>row. cache_key row = key \<and> timestamp row > t - 3600) C")
  case None
  then show ?thesis by (simp add: get_from_lru_cache_def)
next
  case (Some row')
  then have "row' \<in> set C" "cache_key row' = key"
    by (auto simp: find_Some_iff in_set_conv_nth)
  moreover from assms(2) have "row \<in> set C" "cache_key row = key"
    by (auto simp: find_Some_iff in_set_conv_nth)
  moreover from assms(1) have "inj_on cache_key (set C)"
    by (simp add: cache_constraint_def distinct_map)
  ultimately have "row' = row" by (auto dest: inj_onD)
  with Some assms(3) show ?thesis by (auto simp: get_from_lru_cache_def)
qed

text \<open>
  When the lookup of a \<^verbatim>\<open>GET\<close> lets the request go ahead, it has added no row, and a read
  of the key afterwards returns \<^verbatim>\<open>None\<close>.
\<close>

lemma cache_lookup_miss:
  assumes "cache_constraint C" and "cache_lookup json_loads C now ''GET'' key = (None, C1)"
    and "now \<le> t"
  shows "set C1 \<subseteq> set C \<and> get_from_lru_cache C1 t key = (PyNone, C1)"
proof (cases "find (\<lambda>row. cache_key row = key \<and> timestamp row > now - 3600) C")
  case None
  with assms(2) have "C1 = C" by (simp add: cache_lookup_def get_from_lru_cache_def)
  with get_stale_later[OF None assms(3)] show ?thesis by simp
next
  case (Some row)
  show ?thesis
  proof (cases "response row")
    case NullText
    with assms(2) Some have "C1 = C" by (simp add: cache_lookup_def get_from_lru_cache_def)
    with get_null_later[OF assms(1) Some] NullText show ?thesis by simp
  next
    case NotJson
    with assms(2) Some have "C1 = delete_from_lru_cache C key"
      by (simp add: cache_lookup_def get_from_lru_cache_def)
    then show ?thesis by (simp add: get_after_delete delete_subset)
  next
    case (JsonText v)
    show ?thesis
    proof (cases "v = PyNone")
      case True
      with assms(2) Some JsonText have "C1 = C"
        by (simp add: cache_lookup_def get_from_lru_cache_def)
      with get_null_later[OF assms(1) Some] JsonText True show ?thesis by simp
    next
      case False
      with assms(2) Some JsonText have "C1 = delete_from_lru_cache C key"
        by (auto simp: cache_lookup_def get_from_lru_cache_def
            split: if_splits pyval.splits option.splits)
      then show ?thesis by (simp add: get_after_delete delete_subset)
    qed
  qed
qed

text \<open>The two halves: a request answered by \<^verbatim>\<open>[]\<close>, and a read that finds \<^verbatim>\<open>[]\<close>.\<close>

lemma empty_response_not_stored:
  assumes "cache_constraint C"
    and "retry_request_lru sha256 json_loads tr now later url ''GET'' payload params C s
           = Some (result, C', s')"
    and "requests s < requests s'"
    and "tr (requests s' - 1) = Response r"
    and "status_code r \<in> {200, 201}" and "resp_json r = Some (PyList [])"
    and "now \<le> t"
  shows "result = PyNone \<and> set C' \<subseteq> set C
       \<and> get_from_lru_cache C' t (create_cache_key sha256 url params payload) = (PyNone, C')"
proof -
  define key where "key = create_cache_key sha256 url params payload"
  obtain hit C1 where look: "cache_lookup json_loads C now ''GET'' key = (hit, C1)"
    by (cases "cache_lookup json_loads C now ''GET'' key")
  show ?thesis
  proof (cases hit)
    case (Some v)
    with assms(2) look have "s' = s"
      by (simp add: retry_request_lru_def key_def[symmetric])
    with assms(3) show ?thesis by simp
  next
    case None
    with assms(2) look obtain y where y: "retry_request tr ''GET'' s = Some y"
      and res: "result = fst y" "s' = snd y"
      and C': "C' = (if result \<noteq> PyNone \<and> result \<noteq> PyList []
                     then set_in_lru_cache C1 later key result else C1)"
      by (auto simp: retry_request_lru_def key_def[symmetric] split: option.splits)
    from retry_request_result[OF y] assms(3-6) res have "result = PyNone" by blast
    with C' have "C' = C1" by simp
    with cache_lookup_miss[OF assms(1) look[unfolded None] assms(7)] \<open>result = PyNone\<close>
    show ?thesis by (simp add: key_def)
  qed
qed

lemma empty_entry_purged_on_read:
  assumes "find (\<lambda>row. cache_key row = key \<and> timestamp row > now - 3600) C = Some row"
    and "response row = JsonText (PyList [])"
  shows "get_from_lru_cache C now key = (PyNone, delete_from_lru_cache C key)"
    and "\<forall>row' \<in> set (delete_from_lru_cache C key). cache_key row' \<noteq> key"
  using assms by (simp_all add: get_from_lru_cache_def delete_from_lru_cache_def)

text \<open>
  C9. For every \<^verbatim>\<open>GET\<close> that \<^verbatim>\<open>retry_request_lru\<close> sends and whose last answer is a 200 or
  201 with the body \<^verbatim>\<open>[]\<close>, on a table that satisfies its \<^verbatim>\<open>UNIQUE\<close> constraint: the call
  returns \<^verbatim>\<open>None\<close>, every row of the table afterwards was there before (nothing is stored),
  and a read of the request's key at any time from the lookup on returns \<^verbatim>\<open>None\<close> and
  leaves the table as it is. And whenever a read finds a fresh row whose body is \<^verbatim>\<open>[]\<close>, it
  returns \<^verbatim>\<open>None\<close> and deletes every row of that key.
\<close>

theorem empty_response_never_cached:
  "(cache_constraint C
    \<and> retry_request_lru sha256 json_loads tr now later url ''GET'' payload params C s
         = Some (result, C', s')
    \<and> requests s < requests s' \<and> tr (requests s' - 1) = Response r
    \<and> status_code r \<in> {200, 201} \<and> resp_json r = Some (PyList []) \<and> now \<le> t
    \<longrightarrow> result = PyNone \<and> set C' \<subseteq> set C
      \<and> get_from_lru_cache C' t (create_cache_key sha256 url params payload) = (PyNone, C'))
   \<and> (find (\<lambda>row. cache_key row = key \<and> timestamp row > t0 - 3600) C0 = Some row
      \<and> response row = JsonText (PyList [])
    \<longrightarrow> get_from_lru_cache C0 t0 key = (PyNone, delete_from_lru_cache C0 key)
      \<and> (\<forall>row' \<in> set (delete_from_lru_cache C0 key). cache_key row' \<noteq> key))"
  using empty_response_not_stored[of C sha256 json_loads tr now later url payload params s result C' s' r t]
    empty_entry_purged_on_read[of key t0 C0 row]
  by blast

theorem empty_response_never_cached_witness:
  "cache_constraint example_cache
   \<and> retry_request_lru (\<lambda>s. s) (\<lambda>s. None) empty_list_200 200 201 example_url ''GET'' PyNone None
        example_cache initial_client
      = Some (PyNone, [], \<lparr>requests = 1, sleeps = [], logged = [EmptyResponse]\<rparr>)
   \<and> requests initial_client < 1
   \<and> empty_list_200 0 = Response \<lparr>status_code = 200, resp_text = ''[]'', resp_json = Some (PyList [])\<rparr>
   \<and> get_from_lru_cache [] 202 (create_cache_key (\<lambda>s. s) example_url None PyNone) = (PyNone, [])
   \<and> find (\<lambda>row. cache_key row = create_cache_key (\<lambda>s. s) example_url None PyNone
               \<and> timestamp row > 200 - 3600) example_cache = Some (hd example_cache)
   \<and> get_from_lru_cache example_cache 200 (create_cache_key (\<lambda>s. s) example_url None PyNone)
       = (PyNone, [])"
proof -
  have call: "retry_request_lru (\<lambda>s. s) (\<lambda>s. None) empty_list_200 200 201 example_url ''GET'' PyNone None
        example_cache initial_client
      = Some (PyNone, [], \<lparr>requests = 1, sleeps = [], logged = [EmptyResponse]\<rparr>)"
    by (simp add: retry_request_lru_def cache_lookup_def get_from_lru_cache_def
        delete_from_lru_cache_def example_cache_def retry_request.simps empty_list_200_def
        initial_client_def http_methods_def log_event_def)
  have found: "find (\<lambda>row. cache_key row = create_cache_key (\<lambda>s. s) example_url None PyNone
               \<and> timestamp row > 200 - 3600) example_cache = Some (hd example_cache)"
    by (simp add: example_cache_def)
  have del: "delete_from_lru_cache example_cache (create_cache_key (\<lambda>s. s) example_url None PyNone) = []"
    by (simp add: delete_from_lru_cache_def example_cache_def)
  from empty_response_never_cached[where C = example_cache and ?sha256.0 = "\<lambda>s. s"
      and json_loads = "\<lambda>s. None" and tr = empty_list_200 and now = 200 and later = 201
      and url = example_url and payload = PyNone and params = None and s = initial_client
      and result = PyNone and C' = "[]"
      and s' = "\<lparr>requests = 1, sleeps = [], logged = [EmptyResponse]\<rparr>"
      and r = "\<lparr>status_code = 200, resp_text = ''[]'', resp_json = Some (PyList [])\<rparr>"
      and t = 202 and key = "create_cache_key (\<lambda>s. s) example_url None PyNone"
      and ?t0.0 = 200 and ?C0.0 = example_cache and row = "hd example_cache"]
    call found del
  show ?thesis
    by (simp add: cache_constraint_def example_cache_def empty_list_200_def initial_client_def)
qed

section \<open>Properties of the transaction identity\<close>

lemmas quantity_eval = normalize_quantity_for_transaction_id_def py_str_def num_eval repr_eval

text \<open>The quantities of the examples, each as an integer, a float or a string.\<close>

lemma normalize_five:
  "normalize_quantity_for_transaction_id (PyInt 5) = ''5''"
  "normalize_quantity_for_transaction_id (PyFloat (float_literal ''5.0'')) = ''5''"
  "normalize_quantity_for_transaction_id (PyStr ''5.000000000'') = ''5''"
  by (simp_all add: quantity_eval)

lemma normalize_eight_decimals:
  "normalize_quantity_for_transaction_id (PyFloat (float_literal ''5.1'')) = ''5.1''"
  "normalize_quantity_for_transaction_id (PyFloat (float_literal ''5.10000001'')) = ''5.10000001''"
  by (simp_all add: quantity_eval)

lemma normalize_nine_decimals:
  "normalize_quantity_for_transaction_id (PyFloat (float_literal ''5.100000001'')) = ''5.100000001''"
  "normalize_quantity_for_transaction_id (PyStr ''5.100000001'') = ''5.100000001''"
  by (simp_all add: quantity_eval)

lemma normalize_ten_decimals:
  "normalize_quantity_for_transaction_id (PyFloat (float_literal ''5.1000000001'')) = ''5.1''"
  "normalize_quantity_for_transaction_id (PyStr ''5.1000000001'') = ''5.1''"
  by (simp_all add: quantity_eval)

text \<open>
  C3, as stated, fails in its last example. The quantity 5.100000001 has nine decimals, and
  nine decimals are what the normalization keeps: it does not normalize equal to 5.1.
\<close>

theorem nine_decimals_do_not_collapse:
  "normalize_quantity_for_transaction_id (PyFloat (float_literal ''5.100000001''))
   \<noteq> normalize_quantity_for_transaction_id (PyFloat (float_literal ''5.1''))"
  by (simp add: normalize_nine_decimals normalize_eight_decimals)

text \<open>
  C3, amended. Identity derivation is deterministic and collapses exactly at the
  normalization: for all components and quantities, two derived identities with the same
  components are equal if and only if the normalized quantities are equal. In particular
  5, 5.0 and "5.000000000" all normalize to the same string, 5.1 and 5.10000001 normalize
  differently, and so do 5.1 and 5.100000001; the rounding boundary is the tenth decimal:
  5.1000000001 normalizes equal to 5.1.
\<close>

theorem identity_collapses_at_normalization:
  "(derive_unique_transaction_id a b c q1 = derive_unique_transaction_id a b c q2
      \<longleftrightarrow> normalize_quantity_for_transaction_id q1 = normalize_quantity_for_transaction_id q2)
   \<and> normalize_quantity_for_transaction_id (PyInt 5) = ''5''
   \<and> normalize_quantity_for_transaction_id (PyFloat (float_literal ''5.0'')) = ''5''
   \<and> normalize_quantity_for_transaction_id (PyStr ''5.000000000'') = ''5''
   \<and> normalize_quantity_for_transaction_id (PyFloat (float_literal ''5.1''))
       \<noteq> normalize_quantity_for_transaction_id (PyFloat (float_literal ''5.10000001''))
   \<and> normalize_quantity_for_transaction_id (PyFloat (float_literal ''5.1''))
       \<noteq> normalize_quantity_for_transaction_id (PyFloat (float_literal ''5.100000001''))
   \<and> normalize_quantity_for_transaction_id (PyFloat (float_literal ''5.1000000001''))
       = normalize_quantity_for_transaction_id (PyFloat (float_literal ''5.1''))"
proof -
  have "derive_unique_transaction_id a b c q1 = derive_unique_transaction_id a b c q2
      \<longleftrightarrow> normalize_quantity_for_transaction_id q1 = normalize_quantity_for_transaction_id q2"
    by (simp add: derive_unique_transaction_id_def)
  then show ?thesis
    by (simp only: normalize_five normalize_eight_decimals normalize_nine_decimals
        normalize_ten_decimals) simp
qed

end
